theory Spec2Isabelle
  imports Main
begin

section \<open>The SQL cache driver of src/cache.ts\<close>

text \<open>
  \<open>SqlCache\<close> keeps strings in a table of a MySQL database and reaches the database
  through one method of the connection only, \<open>client.query(query, data, callback)\<close>.
  The connection is not part of the repository, so the model takes it as a parameter:
  a function from the query text, the query data and the state of the server to what the
  callback receives, \<open>(error, results)\<close>, and the next state of the server. The
  callback is taken to be invoked exactly once for every query, as the \<open>mysql\<close>
  driver and the test suite's \<open>MockConnection\<close> do, and one operation runs at
  a time: no other query reaches the server between the two queries of a \<open>get\<close>.
\<close>

subsection \<open>Data\<close>

text \<open>
  A \<open>number\<close> of the source that counts seconds or milliseconds is an \<open>int\<close>:
  \<open>expiry_ts\<close> is the sum of the \<open>int(11)\<close> column \<open>ttl\<close> and of
  \<open>UNIX_TIMESTAMP\<close> of a \<open>timestamp\<close> column, and \<open>Date.now()\<close> is a whole
  number of milliseconds of magnitude at most 8.64e15, which is below 2^53. The
  double-precision product \<open>expiry_ts * 1000\<close> is exact up to 2^53 in magnitude;
  beyond, its rounded value is still at least 2^53 in magnitude (rounding is monotone
  and 2^53 is a double) and so lies on the same side of \<open>Date.now()\<close> as the exact
  product. The comparison of the source and the comparison on \<open>int\<close> therefore agree.
\<close>

datatype js_number = Undefined | Number int

text \<open>
  \<open>KeyValueCacheSetOptions\<close> is \<open>{ ttl?: number }\<close>. The field is
  \<open>None\<close> when the object has no property \<open>ttl\<close> and \<open>Some v\<close> when it has
  one, whose value \<open>v\<close> may itself be \<open>undefined\<close>: the object spread tells the two apart.
\<close>

record KeyValueCacheSetOptions =
  ttl :: "js_number option"

text \<open>The rows of the read query, \<open>{ key: string; value: string; expiry_ts: number }\<close>.\<close>

record row =
  row_key :: string
  row_value :: string
  expiry_ts :: int

text \<open>
  The second argument of \<open>client.query\<close>: the array \<open>[key]\<close> for the placeholder
  \<open>?\<close> of the read and delete queries, the object \<open>{ key, value, ttl }\<close> for
  \<open>SET ?\<close> of the insert.
\<close>

datatype query_data =
    Placeholders "string list"
  | SetObject string string js_number

type_synonym query_call = "string \<times> query_data"

text \<open>
  What the callback receives: the error (\<open>None\<close> for \<open>null\<close>; an error of the
  driver is an object, so \<open>if (error)\<close> holds for every \<open>Some e\<close>) and the results
  (\<open>None\<close> for \<open>undefined\<close>, which is what \<open>MockConnection\<close> passes when no
  results were set).
\<close>

type_synonym 'e reply = "'e option \<times> row list option"

type_synonym ('s, 'e) Connection = "string \<Rightarrow> query_data \<Rightarrow> 's \<Rightarrow> 'e reply \<times> 's"

text \<open>
  The world outside the cache object: the state of the server behind the connection,
  and the calls of \<open>client.query\<close> made so far, oldest first (what \<open>jest.fn\<close>
  records for the test suite).
\<close>

record 's world =
  issued :: "query_call list"
  server :: 's

text \<open>
  \<open>SqlCacheOptions\<close>. The interface declares \<open>client\<close> and \<open>databaseName\<close>
  as required, but the constructor checks them at run time and the tests pass objects
  without them, so every field is optional here; \<open>None\<close> is a missing property
  (or the value \<open>undefined\<close>).
\<close>

record 'c SqlCacheOptions =
  options_client :: "'c option"
  options_databaseName :: "string option"
  options_tableName :: "string option"
  options_deleteExpiredItems :: "bool option"

text \<open>The fields of a \<open>SqlCache\<close> object.\<close>

record 'c SqlCache =
  client :: 'c
  databaseName :: string
  tableName :: string
  deleteExpiredItems :: bool
  defaultSetOptions :: KeyValueCacheSetOptions

datatype error = Error string

subsection \<open>Construction\<close>

text \<open>
  The field initialisers run first (\<open>tableName = 'cache'\<close>,
  \<open>deleteExpiredItems = true\<close>, \<open>defaultSetOptions = { ttl: 300 }\<close>), then the
  body of the constructor. \<open>!options.databaseName\<close> holds for a missing property and
  for the empty string; \<open>if (options.tableName)\<close> fails for both as well.
\<close>

definition constructor :: "'c SqlCacheOptions option \<Rightarrow> error + 'c SqlCache" where
  "constructor options =
     (case options of
        None \<Rightarrow> Inl (Error
          ''configuration object with `client` and `databaseName` must be set when initializing SqlCache'')
      | Some opts \<Rightarrow>
         (case options_client opts of
            None \<Rightarrow> Inl (Error ''`client` must be set when initializing SqlCache'')
          | Some cl \<Rightarrow>
             (case options_databaseName opts of
                None \<Rightarrow> Inl (Error ''`databaseName` must be set when initializing SqlCache'')
              | Some db \<Rightarrow>
                 (if db = ''''
                  then Inl (Error ''`databaseName` must be set when initializing SqlCache'')
                  else Inr \<lparr>
                    client = cl,
                    databaseName = db,
                    tableName =
                      (case options_tableName opts of
                         None \<Rightarrow> ''cache''
                       | Some t \<Rightarrow> if t = '''' then ''cache'' else t),
                    deleteExpiredItems =
                      (case options_deleteExpiredItems opts of
                         None \<Rightarrow> True
                       | Some d \<Rightarrow> d),
                    defaultSetOptions = \<lparr>ttl = Some (Number 300)\<rparr> \<rparr>))))"

subsection \<open>Running a query\<close>

text \<open>
  \<open>promisifyQuery\<close> calls \<open>client.query\<close> once; the promise is rejected with the
  error when the callback receives one and resolved with the results otherwise.
  A rejected promise is \<open>Inl\<close>, a resolved one \<open>Inr\<close>.
\<close>

definition promisifyQuery ::
  "(('s, 'e) Connection) SqlCache \<Rightarrow> string \<Rightarrow> query_data \<Rightarrow> 's world
     \<Rightarrow> ('e + row list option) \<times> 's world" where
  "promisifyQuery c query qdata w =
     (case client c query qdata (server w) of
        ((err, results), s') \<Rightarrow>
          (let w' = \<lparr>issued = issued w @ [(query, qdata)], server = s'\<rparr>
           in case err of
                Some e \<Rightarrow> (Inl e, w')
              | None \<Rightarrow> (Inr results, w')))"

subsection \<open>The query texts\<close>

definition selectQuery :: "'c SqlCache \<Rightarrow> string" where
  "selectQuery c =
     ''\<newline>      SELECT\<newline>        value,\<newline>        (ttl + UNIX_TIMESTAMP(created_at)) as expiry_ts\<newline>      FROM ''
       @ databaseName c @ ''.'' @ tableName c
       @ '' as cacheTable\<newline>      WHERE cacheTable.key = ?\<newline>      ''"

definition insertQuery :: "'c SqlCache \<Rightarrow> string" where
  "insertQuery c = ''INSERT INTO '' @ databaseName c @ ''.'' @ tableName c @ '' SET ?''"

definition deleteQuery :: "'c SqlCache \<Rightarrow> string" where
  "deleteQuery c =
     ''DELETE FROM '' @ databaseName c @ ''.'' @ tableName c
       @ '' as cacheTable WHERE cacheTable.key = ?''"

subsection \<open>The three operations\<close>

text \<open>\<open>delete\<close> awaits its query and returns \<open>true\<close>; the results are not looked at.\<close>

definition delete ::
  "(('s, 'e) Connection) SqlCache \<Rightarrow> string \<Rightarrow> 's world \<Rightarrow> ('e + bool) \<times> 's world" where
  "delete c key w =
     (case promisifyQuery c (deleteQuery c) (Placeholders [key]) w of
        (Inl e, w') \<Rightarrow> (Inl e, w')
      | (Inr _, w') \<Rightarrow> (Inr True, w'))"

text \<open>
  \<open>get\<close>; \<open>now\<close> is what \<open>Date.now()\<close> returns when the row is examined. The result
  \<open>None\<close> is \<open>undefined\<close>. \<open>data && data.length\<close> fails for \<open>undefined\<close> results and
  for an empty array, and the function then ends without a \<open>return\<close>.
\<close>

definition get ::
  "(('s, 'e) Connection) SqlCache \<Rightarrow> string \<Rightarrow> int \<Rightarrow> 's world
     \<Rightarrow> ('e + string option) \<times> 's world" where
  "get c key now w =
     (case promisifyQuery c (selectQuery c) (Placeholders [key]) w of
        (Inl e, w1) \<Rightarrow> (Inl e, w1)
      | (Inr data, w1) \<Rightarrow>
         (case data of
            None \<Rightarrow> (Inr None, w1)
          | Some [] \<Rightarrow> (Inr None, w1)
          | Some (r # _) \<Rightarrow>
             (if deleteExpiredItems c \<and> now \<ge> expiry_ts r * 1000
              then (case delete c key w1 of
                      (Inl e, w2) \<Rightarrow> (Inl e, w2)
                    | (Inr _, w2) \<Rightarrow> (Inr None, w2))
              else (Inr (Some (row_value r)), w1))))"

text \<open>
  The object spread \<open>{ ...a, ...b }\<close> on objects whose only property is \<open>ttl\<close>:
  a property of \<open>b\<close> wins over that of \<open>a\<close>, whatever its value.
\<close>

definition spread :: "KeyValueCacheSetOptions \<Rightarrow> KeyValueCacheSetOptions \<Rightarrow> KeyValueCacheSetOptions" where
  "spread a b = \<lparr>ttl = (case ttl b of Some v \<Rightarrow> Some v | None \<Rightarrow> ttl a)\<rparr>"

text \<open>Reading the property \<open>ttl\<close> of an object: \<open>undefined\<close> when there is none.\<close>

definition read_ttl :: "KeyValueCacheSetOptions \<Rightarrow> js_number" where
  "read_ttl obj = (case ttl obj of Some v \<Rightarrow> v | None \<Rightarrow> Undefined)"

text \<open>
  \<open>set\<close>; the argument \<open>options\<close> is \<open>None\<close> when the caller leaves it out (or passes
  \<open>undefined\<close>), and the parameter default \<open>{}\<close> then takes its place.
\<close>

definition set_item ::
  "(('s, 'e) Connection) SqlCache \<Rightarrow> string \<Rightarrow> string \<Rightarrow> KeyValueCacheSetOptions option
     \<Rightarrow> 's world \<Rightarrow> ('e + unit) \<times> 's world" where
  "set_item c key val options w =
     (let opts = (case options of None \<Rightarrow> \<lparr>ttl = None\<rparr> | Some obj \<Rightarrow> obj);
          t = read_ttl (spread (defaultSetOptions c) opts)
      in case promisifyQuery c (insertQuery c) (SetObject key val t) w of
           (Inl e, w') \<Rightarrow> (Inl e, w')
         | (Inr _, w') \<Rightarrow> (Inr (), w'))"

subsection \<open>Connections and objects of the test suite\<close>

text \<open>
  \<open>MockConnection\<close> of the test file answers every query with its two fields
  \<open>error\<close> and \<open>results\<close>; it has no state.
\<close>

definition MockConnection :: "'e option \<Rightarrow> row list option \<Rightarrow> (unit, 'e) Connection" where
  "MockConnection err results = (\<lambda>query qdata s. ((err, results), s))"

text \<open>
  A connection that answers from a script, one reply per query, and with
  \<open>(null, undefined)\<close> once the script is used up. It gives the runs in which the read
  query succeeds and the delete query that follows fails.
\<close>

definition ScriptedConnection :: "('e reply list, 'e) Connection" where
  "ScriptedConnection query qdata s =
     (case s of [] \<Rightarrow> ((None, None), []) | r # rs \<Rightarrow> (r, rs))"

text \<open>\<open>defaultConfig\<close> of the test file, and the cache object the constructor makes of it.\<close>

definition defaultConfig :: "'c \<Rightarrow> 'c SqlCacheOptions" where
  "defaultConfig cl =
     \<lparr>options_client = Some cl, options_databaseName = Some ''cache'',
      options_tableName = None, options_deleteExpiredItems = None\<rparr>"

definition testCache :: "'c \<Rightarrow> bool \<Rightarrow> 'c SqlCache" where
  "testCache cl del =
     \<lparr>client = cl, databaseName = ''cache'', tableName = ''cache'',
      deleteExpiredItems = del, defaultSetOptions = \<lparr>ttl = Some (Number 300)\<rparr>\<rparr>"

text \<open>The rows of the tests: one that expired in 1970, one that expires in the year 318857.\<close>

definition outdatedRow :: row where
  "outdatedRow = \<lparr>row_key = ''key-123'', row_value = ''cached-value'', expiry_ts = 0\<rparr>"

definition freshRow :: row where
  "freshRow = \<lparr>row_key = ''key-123'', row_value = ''cached-value'', expiry_ts = 9999999999999\<rparr>"

text \<open>
  The objects of the runs below, with \<open>string\<close> for the type of the errors: a cache on a
  \<open>MockConnection\<close>, a cache on a scripted connection with \<open>deleteExpiredItems\<close> on, and
  the world before the first query.
\<close>

definition mockCache ::
  "string option \<Rightarrow> row list option \<Rightarrow> bool \<Rightarrow> ((unit, string) Connection) SqlCache" where
  "mockCache err results del = testCache (MockConnection err results) del"

definition scriptedCache :: "((string reply list, string) Connection) SqlCache" where
  "scriptedCache = testCache ScriptedConnection True"

definition freshWorld :: "'s \<Rightarrow> 's world" where
  "freshWorld s = \<lparr>issued = [], server = s\<rparr>"

text \<open>The test suite recognises a delete query by the pattern \<open>/^DELETE FROM /\<close>.\<close>

definition matchesDelete :: "string \<Rightarrow> bool" where
  "matchesDelete query = (take 12 query = ''DELETE FROM '')"

definition deleteCalls :: "query_call list \<Rightarrow> query_call list" where
  "deleteCalls calls = filter (\<lambda>call. matchesDelete (fst call)) calls"

section \<open>What one query does\<close>

lemma promisifyQuery_rejects:
  "client c q d (server w) = ((Some e, res), s') \<Longrightarrow>
   promisifyQuery c q d w = (Inl e, \<lparr>issued = issued w @ [(q, d)], server = s'\<rparr>)"
  by (simp add: promisifyQuery_def)

lemma promisifyQuery_resolves:
  "client c q d (server w) = ((None, res), s') \<Longrightarrow>
   promisifyQuery c q d w = (Inr res, \<lparr>issued = issued w @ [(q, d)], server = s'\<rparr>)"
  by (simp add: promisifyQuery_def)

lemma delete_rejects:
  "client c (deleteQuery c) (Placeholders [key]) (server w) = ((Some e, res), s') \<Longrightarrow>
   delete c key w =
     (Inl e, \<lparr>issued = issued w @ [(deleteQuery c, Placeholders [key])], server = s'\<rparr>)"
  by (simp add: delete_def promisifyQuery_rejects)

lemma delete_resolves:
  "client c (deleteQuery c) (Placeholders [key]) (server w) = ((None, res), s') \<Longrightarrow>
   delete c key w =
     (Inr True, \<lparr>issued = issued w @ [(deleteQuery c, Placeholders [key])], server = s'\<rparr>)"
  by (simp add: delete_def promisifyQuery_resolves)

lemma matchesDelete_deleteQuery: "matchesDelete (deleteQuery c)"
  by (simp add: matchesDelete_def deleteQuery_def)

lemma matchesDelete_selectQuery: "\<not> matchesDelete (selectQuery c)"
  by (simp add: matchesDelete_def selectQuery_def)

lemma constructor_defaultConfig:
  "constructor (Some (defaultConfig cl)) = Inr (testCache cl True)"
  by (simp add: constructor_def defaultConfig_def testCache_def)

lemma constructor_default_ttl:
  "constructor options = Inr c \<Longrightarrow> defaultSetOptions c = \<lparr>ttl = Some (Number 300)\<rparr>"
  by (auto simp: constructor_def split: option.splits if_splits)

lemma mockCache_query: "client (mockCache err results del) q d s = ((err, results), s)"
  by (simp add: mockCache_def testCache_def MockConnection_def)

lemma mockCache_deleteExpiredItems: "deleteExpiredItems (mockCache err results del) = del"
  by (simp add: mockCache_def testCache_def)

lemma mockCache_defaultSetOptions:
  "defaultSetOptions (mockCache err results del) = \<lparr>ttl = Some (Number 300)\<rparr>"
  by (simp add: mockCache_def testCache_def)

lemma scriptedCache_query: "client scriptedCache q d (r # rs) = (r, rs)"
  by (simp add: scriptedCache_def testCache_def ScriptedConnection_def)

lemma scriptedCache_deleteExpiredItems: "deleteExpiredItems scriptedCache"
  by (simp add: scriptedCache_def testCache_def)

lemma freshWorld_sel: "issued (freshWorld s) = []" "server (freshWorld s) = s"
  by (simp_all add: freshWorld_def)

lemma promisifyQuery_issued:
  "issued (snd (promisifyQuery c q d w)) = issued w @ [(q, d)]"
proof -
  obtain err res s' where "client c q d (server w) = ((err, res), s')"
    by (metis prod.exhaust)
  then show ?thesis
    by (cases err) (simp_all add: promisifyQuery_rejects promisifyQuery_resolves)
qed

lemma set_item_issued:
  "issued (snd (set_item c key val options w)) =
     issued w @
       [(insertQuery c,
         SetObject key val
           (read_ttl (spread (defaultSetOptions c)
              (case options of None \<Rightarrow> \<lparr>ttl = None\<rparr> | Some obj \<Rightarrow> obj))))]"
proof -
  let ?t = "read_ttl (spread (defaultSetOptions c)
              (case options of None \<Rightarrow> \<lparr>ttl = None\<rparr> | Some obj \<Rightarrow> obj))"
  have "snd (set_item c key val options w) =
          snd (promisifyQuery c (insertQuery c) (SetObject key val ?t) w)"
    by (simp add: set_item_def split: prod.splits sum.splits)
  then show ?thesis
    by (simp add: promisifyQuery_issued)
qed

section \<open>Construction\<close>

text \<open>
  Claim C4. The constructor throws exactly when the configuration object is missing,
  when it has no \<open>client\<close>, or when its \<open>databaseName\<close> is missing or empty.
  In every other case it returns a cache object with the client and the database name
  of the configuration, the table name \<open>cache\<close> when none is given, the given one when
  it is not empty, \<open>deleteExpiredItems = true\<close> when none is given and the given
  value otherwise.
\<close>

theorem constructor_throws_iff:
  "((\<exists>e. constructor options = Inl e) \<longleftrightarrow>
      (options = None
       \<or> (\<exists>opts. options = Some opts
             \<and> (options_client opts = None
                \<or> options_databaseName opts = None
                \<or> options_databaseName opts = Some ''''))))
   \<and> ((\<exists>c. constructor options = Inr c) \<longleftrightarrow> \<not> (\<exists>e. constructor options = Inl e))
   \<and> (\<forall>c opts. constructor options = Inr c \<and> options = Some opts \<longrightarrow>
          options_client opts = Some (client c)
        \<and> options_databaseName opts = Some (databaseName c)
        \<and> (options_tableName opts = None \<longrightarrow> tableName c = ''cache'')
        \<and> (\<forall>t. options_tableName opts = Some t \<and> t \<noteq> '''' \<longrightarrow> tableName c = t)
        \<and> (options_deleteExpiredItems opts = None \<longrightarrow> deleteExpiredItems c = True)
        \<and> (\<forall>d. options_deleteExpiredItems opts = Some d \<longrightarrow> deleteExpiredItems c = d))"
proof (intro conjI)
  show "(\<exists>e. constructor options = Inl e) \<longleftrightarrow>
      (options = None
       \<or> (\<exists>opts. options = Some opts
             \<and> (options_client opts = None
                \<or> options_databaseName opts = None
                \<or> options_databaseName opts = Some '''')))"
    by (auto simp: constructor_def split: option.splits if_splits)
  show "(\<exists>c. constructor options = Inr c) \<longleftrightarrow> \<not> (\<exists>e. constructor options = Inl e)"
    by (cases "constructor options") auto
  show "\<forall>c opts. constructor options = Inr c \<and> options = Some opts \<longrightarrow>
          options_client opts = Some (client c)
        \<and> options_databaseName opts = Some (databaseName c)
        \<and> (options_tableName opts = None \<longrightarrow> tableName c = ''cache'')
        \<and> (\<forall>t. options_tableName opts = Some t \<and> t \<noteq> '''' \<longrightarrow> tableName c = t)
        \<and> (options_deleteExpiredItems opts = None \<longrightarrow> deleteExpiredItems c = True)
        \<and> (\<forall>d. options_deleteExpiredItems opts = Some d \<longrightarrow> deleteExpiredItems c = d)"
    by (auto simp: constructor_def split: option.splits if_splits)
qed

theorem constructor_throws_iff_witness:
  "constructor (Some (defaultConfig (MockConnection (None :: string option) None)))
     = Inr (testCache (MockConnection None None) True)
   \<and> options_tableName (defaultConfig (MockConnection (None :: string option) None)) = None
   \<and> options_deleteExpiredItems (defaultConfig (MockConnection (None :: string option) None)) = None
   \<and> tableName (testCache (MockConnection (None :: string option) None) True) = ''cache''
   \<and> deleteExpiredItems (testCache (MockConnection (None :: string option) None) True) = True
   \<and> (\<exists>e. constructor (None :: ((unit, string) Connection) SqlCacheOptions option) = Inl e)"
  using constructor_throws_iff
    [of "Some (defaultConfig (MockConnection (None :: string option) None))"]
    constructor_throws_iff [of "None :: ((unit, string) Connection) SqlCacheOptions option"]
  by (simp add: constructor_def defaultConfig_def testCache_def)

section \<open>Reading\<close>

text \<open>
  Claim C1, as amended. When the read query of \<open>get\<close> returns a row that has
  expired (\<open>now \<ge> expiry_ts * 1000\<close>) and \<open>deleteExpiredItems\<close> is on,
  \<open>get\<close> issues exactly two queries, the read and then one delete query with the
  key as its parameter, and the delete query is the only one of the two that matches
  \<open>/^DELETE FROM /\<close>. When that delete query reports no error, \<open>get\<close> returns
  \<open>undefined\<close>.
\<close>

theorem get_expired_row_deletes:
  assumes "client c (selectQuery c) (Placeholders [key]) (server w) = ((None, Some (r # rs)), s1)"
    and "deleteExpiredItems c"
    and "now \<ge> expiry_ts r * 1000"
    and "client c (deleteQuery c) (Placeholders [key]) s1 = ((derr, dres), s2)"
  shows "snd (get c key now w) =
           \<lparr>issued = issued w @ [(selectQuery c, Placeholders [key]),
                                 (deleteQuery c, Placeholders [key])],
            server = s2\<rparr>
         \<and> deleteCalls [(selectQuery c, Placeholders [key]), (deleteQuery c, Placeholders [key])]
             = [(deleteQuery c, Placeholders [key])]
         \<and> (derr = None \<longrightarrow> fst (get c key now w) = Inr None)"
proof -
  let ?w1 = "\<lparr>issued = issued w @ [(selectQuery c, Placeholders [key])], server = s1\<rparr>"
  have sel: "promisifyQuery c (selectQuery c) (Placeholders [key]) w = (Inr (Some (r # rs)), ?w1)"
    using assms(1) by (rule promisifyQuery_resolves)
  have del: "client c (deleteQuery c) (Placeholders [key]) (server ?w1) = ((derr, dres), s2)"
    using assms(4) by simp
  have calls: "deleteCalls [(selectQuery c, Placeholders [key]), (deleteQuery c, Placeholders [key])]
             = [(deleteQuery c, Placeholders [key])]"
    by (simp add: deleteCalls_def matchesDelete_deleteQuery matchesDelete_selectQuery)
  show ?thesis
  proof (cases derr)
    case None
    with del have "delete c key ?w1 =
        (Inr True, \<lparr>issued = issued ?w1 @ [(deleteQuery c, Placeholders [key])], server = s2\<rparr>)"
      by (simp add: delete_resolves)
    with sel assms(2,3) calls None show ?thesis
      by (simp add: get_def)
  next
    case (Some e)
    with del have "delete c key ?w1 =
        (Inl e, \<lparr>issued = issued ?w1 @ [(deleteQuery c, Placeholders [key])], server = s2\<rparr>)"
      by (simp add: delete_rejects)
    with sel assms(2,3) calls Some show ?thesis
      by (simp add: get_def)
  qed
qed

theorem get_expired_row_deletes_witness:
  "client (mockCache None (Some [outdatedRow]) True)
      (selectQuery (mockCache None (Some [outdatedRow]) True))
      (Placeholders [''key-123'']) (server (freshWorld ()))
     = ((None, Some [outdatedRow]), ())
   \<and> deleteExpiredItems (mockCache None (Some [outdatedRow]) True)
   \<and> (1604300000000 :: int) \<ge> expiry_ts outdatedRow * 1000
   \<and> get (mockCache None (Some [outdatedRow]) True) ''key-123'' 1604300000000 (freshWorld ())
      = (Inr None,
         \<lparr>issued =
            [(selectQuery (mockCache None (Some [outdatedRow]) True), Placeholders [''key-123'']),
             (deleteQuery (mockCache None (Some [outdatedRow]) True), Placeholders [''key-123''])],
          server = ()\<rparr>)"
proof -
  let ?c = "mockCache None (Some [outdatedRow]) True"
  have h1: "client ?c (selectQuery ?c) (Placeholders [''key-123'']) (server (freshWorld ()))
              = ((None, Some (outdatedRow # [])), ())"
    by (simp add: mockCache_query)
  have h2: "deleteExpiredItems ?c"
    by (simp add: mockCache_deleteExpiredItems)
  have h3: "(1604300000000 :: int) \<ge> expiry_ts outdatedRow * 1000"
    by (simp add: outdatedRow_def)
  have h4: "client ?c (deleteQuery ?c) (Placeholders [''key-123'']) ()
              = ((None, Some [outdatedRow]), ())"
    by (simp add: mockCache_query)
  from get_expired_row_deletes [OF h1 h2 h3 h4] h1 h2 h3 show ?thesis
    by (simp add: prod_eq_iff freshWorld_sel)
qed

text \<open>
  The claim as it was written promises \<open>undefined\<close> in every such run. In the run
  below the read query returns the outdated row and the delete query fails with
  \<open>ER_LOCK_DEADLOCK\<close>: \<open>get\<close> is rejected with that error and does not return
  \<open>undefined\<close>.
\<close>

theorem get_expired_row_counterexample:
  "client scriptedCache (selectQuery scriptedCache) (Placeholders [''key-123''])
      (server (freshWorld [(None, Some [outdatedRow]), (Some ''ER_LOCK_DEADLOCK'', None)]))
     = ((None, Some [outdatedRow]), [(Some ''ER_LOCK_DEADLOCK'', None)])
   \<and> deleteExpiredItems scriptedCache
   \<and> (1604300000000 :: int) \<ge> expiry_ts outdatedRow * 1000
   \<and> fst (get scriptedCache ''key-123'' 1604300000000
        (freshWorld [(None, Some [outdatedRow]), (Some ''ER_LOCK_DEADLOCK'', None)]))
      = Inl ''ER_LOCK_DEADLOCK''
   \<and> fst (get scriptedCache ''key-123'' 1604300000000
        (freshWorld [(None, Some [outdatedRow]), (Some ''ER_LOCK_DEADLOCK'', None)]))
      \<noteq> Inr None"
  by (simp add: get_def delete_def promisifyQuery_def scriptedCache_query
      scriptedCache_deleteExpiredItems freshWorld_sel outdatedRow_def)

text \<open>
  Claim C2. When the read query of \<open>get\<close> returns a row that has expired and
  \<open>deleteExpiredItems\<close> is off, \<open>get\<close> returns the stored value of that row,
  stale as it is, and the read query is the only query it issues: no delete query.
\<close>

theorem get_expired_row_kept:
  assumes "client c (selectQuery c) (Placeholders [key]) (server w) = ((None, Some (r # rs)), s1)"
    and "\<not> deleteExpiredItems c"
    and "now \<ge> expiry_ts r * 1000"
  shows "get c key now w =
           (Inr (Some (row_value r)),
            \<lparr>issued = issued w @ [(selectQuery c, Placeholders [key])], server = s1\<rparr>)
         \<and> deleteCalls [(selectQuery c, Placeholders [key])] = []"
proof -
  have "promisifyQuery c (selectQuery c) (Placeholders [key]) w =
          (Inr (Some (r # rs)),
           \<lparr>issued = issued w @ [(selectQuery c, Placeholders [key])], server = s1\<rparr>)"
    using assms(1) by (rule promisifyQuery_resolves)
  with assms(2) show ?thesis
    by (simp add: get_def deleteCalls_def matchesDelete_selectQuery)
qed

theorem get_expired_row_kept_witness:
  "client (mockCache None (Some [outdatedRow]) False)
      (selectQuery (mockCache None (Some [outdatedRow]) False))
      (Placeholders [''key-123'']) (server (freshWorld ()))
     = ((None, Some [outdatedRow]), ())
   \<and> \<not> deleteExpiredItems (mockCache None (Some [outdatedRow]) False)
   \<and> (1604300000000 :: int) \<ge> expiry_ts outdatedRow * 1000
   \<and> get (mockCache None (Some [outdatedRow]) False) ''key-123'' 1604300000000 (freshWorld ())
      = (Inr (Some ''cached-value''),
         \<lparr>issued =
            [(selectQuery (mockCache None (Some [outdatedRow]) False), Placeholders [''key-123''])],
          server = ()\<rparr>)"
proof -
  let ?c = "mockCache None (Some [outdatedRow]) False"
  have h1: "client ?c (selectQuery ?c) (Placeholders [''key-123'']) (server (freshWorld ()))
              = ((None, Some (outdatedRow # [])), ())"
    by (simp add: mockCache_query)
  have h2: "\<not> deleteExpiredItems ?c"
    by (simp add: mockCache_deleteExpiredItems)
  have h3: "(1604300000000 :: int) \<ge> expiry_ts outdatedRow * 1000"
    by (simp add: outdatedRow_def)
  have v: "row_value outdatedRow = ''cached-value''"
    by (simp add: outdatedRow_def)
  from get_expired_row_kept [OF h1 h2 h3] h1 h2 h3 v show ?thesis
    by (simp add: freshWorld_sel)
qed

text \<open>
  Claim C6. When the read query of \<open>get\<close> reports no error and its results are
  missing (\<open>undefined\<close>) or an empty array, \<open>get\<close> resolves to \<open>undefined\<close>
  after that one query: it is not rejected.
\<close>

theorem get_no_row_absent:
  assumes "client c (selectQuery c) (Placeholders [key]) (server w) = ((None, res), s1)"
    and "res = None \<or> res = Some []"
  shows "get c key now w =
           (Inr None, \<lparr>issued = issued w @ [(selectQuery c, Placeholders [key])], server = s1\<rparr>)"
proof -
  have "promisifyQuery c (selectQuery c) (Placeholders [key]) w =
          (Inr res, \<lparr>issued = issued w @ [(selectQuery c, Placeholders [key])], server = s1\<rparr>)"
    using assms(1) by (rule promisifyQuery_resolves)
  with assms(2) show ?thesis
    by (auto simp: get_def)
qed

theorem get_no_row_absent_witness:
  "get (mockCache None None True) ''key-123'' 1604300000000 (freshWorld ())
     = (Inr None,
        \<lparr>issued = [(selectQuery (mockCache None None True), Placeholders [''key-123''])],
         server = ()\<rparr>)
   \<and> get (mockCache None (Some []) True) ''key-123'' 1604300000000 (freshWorld ())
     = (Inr None,
        \<lparr>issued = [(selectQuery (mockCache None (Some []) True), Placeholders [''key-123''])],
         server = ()\<rparr>)"
proof -
  let ?c = "mockCache None None True"
  let ?d = "mockCache None (Some []) True"
  have h1: "client ?c (selectQuery ?c) (Placeholders [''key-123'']) (server (freshWorld ()))
              = ((None, None), ())"
    by (simp add: mockCache_query)
  have h2: "client ?d (selectQuery ?d) (Placeholders [''key-123'']) (server (freshWorld ()))
              = ((None, Some []), ())"
    by (simp add: mockCache_query)
  from get_no_row_absent [OF h1, of 1604300000000] get_no_row_absent [OF h2, of 1604300000000]
  show ?thesis
    by (simp add: freshWorld_sel)
qed

text \<open>
  Claim C7. When the read query of \<open>get\<close> returns a row that has not expired
  (\<open>now < expiry_ts * 1000\<close>), \<open>get\<close> returns the stored value of the row and
  issues no other query, whatever \<open>deleteExpiredItems\<close> is. The test for expiry is
  \<open>now \<ge> expiry_ts * 1000\<close>, the boundary included: with \<open>deleteExpiredItems\<close>
  on, the value is returned exactly when the test fails and the delete query is issued
  exactly when it holds.
\<close>

theorem get_fresh_row_returned:
  assumes "client c (selectQuery c) (Placeholders [key]) (server w) = ((None, Some (r # rs)), s1)"
  shows "(now < expiry_ts r * 1000 \<longrightarrow>
            get c key now w =
              (Inr (Some (row_value r)),
               \<lparr>issued = issued w @ [(selectQuery c, Placeholders [key])], server = s1\<rparr>))
         \<and> (deleteExpiredItems c \<longrightarrow>
              (fst (get c key now w) = Inr (Some (row_value r)) \<longleftrightarrow> \<not> now \<ge> expiry_ts r * 1000)
            \<and> (deleteCalls (drop (length (issued w)) (issued (snd (get c key now w)))) =
                  [(deleteQuery c, Placeholders [key])] \<longleftrightarrow> now \<ge> expiry_ts r * 1000))"
proof -
  let ?w1 = "\<lparr>issued = issued w @ [(selectQuery c, Placeholders [key])], server = s1\<rparr>"
  have sel: "promisifyQuery c (selectQuery c) (Placeholders [key]) w = (Inr (Some (r # rs)), ?w1)"
    using assms by (rule promisifyQuery_resolves)
  have fresh: "now < expiry_ts r * 1000 \<Longrightarrow> get c key now w = (Inr (Some (row_value r)), ?w1)"
    using sel by (simp add: get_def)
  obtain derr dres s2 where
    del: "client c (deleteQuery c) (Placeholders [key]) (server ?w1) = ((derr, dres), s2)"
    by (metis prod.exhaust)
  let ?w2 = "\<lparr>issued = issued ?w1 @ [(deleteQuery c, Placeholders [key])], server = s2\<rparr>"
  have "delete c key ?w1 = (case derr of Some e \<Rightarrow> Inl e | None \<Rightarrow> Inr True, ?w2)"
    using del by (cases derr) (simp_all add: delete_rejects delete_resolves)
  then have stale: "deleteExpiredItems c \<Longrightarrow> now \<ge> expiry_ts r * 1000 \<Longrightarrow>
      get c key now w = (case derr of Some e \<Rightarrow> Inl e | None \<Rightarrow> Inr None, ?w2)"
    using sel by (cases derr) (simp_all add: get_def)
  show ?thesis
  proof (cases "now \<ge> expiry_ts r * 1000")
    case True
    then show ?thesis
      using stale
      by (cases derr)
         (simp_all add: deleteCalls_def matchesDelete_deleteQuery matchesDelete_selectQuery)
  next
    case False
    then have "now < expiry_ts r * 1000" by simp
    with fresh False show ?thesis
      by (simp add: deleteCalls_def matchesDelete_selectQuery)
  qed
qed

theorem get_fresh_row_returned_witness:
  "(1604300000000 :: int) < expiry_ts freshRow * 1000
   \<and> get (mockCache None (Some [freshRow]) True) ''key-123'' 1604300000000 (freshWorld ())
      = (Inr (Some (row_value freshRow)),
         \<lparr>issued =
            [(selectQuery (mockCache None (Some [freshRow]) True), Placeholders [''key-123''])],
          server = ()\<rparr>)
   \<and> deleteExpiredItems (mockCache None (Some [freshRow]) True)
   \<and> fst (get (mockCache None (Some [freshRow]) True) ''key-123'' (expiry_ts freshRow * 1000)
        (freshWorld ()))
      \<noteq> Inr (Some (row_value freshRow))
   \<and> deleteCalls (drop (length (issued (freshWorld ())))
        (issued (snd (get (mockCache None (Some [freshRow]) True) ''key-123''
           (expiry_ts freshRow * 1000) (freshWorld ())))))
      = [(deleteQuery (mockCache None (Some [freshRow]) True), Placeholders [''key-123''])]"
proof -
  let ?c = "mockCache None (Some [freshRow]) True"
  have h1: "client ?c (selectQuery ?c) (Placeholders [''key-123'']) (server (freshWorld ()))
              = ((None, Some (freshRow # [])), ())"
    by (simp add: mockCache_query)
  have h2: "(1604300000000 :: int) < expiry_ts freshRow * 1000"
    by (simp add: freshRow_def)
  have h3: "deleteExpiredItems ?c"
    by (simp add: mockCache_deleteExpiredItems)
  from get_fresh_row_returned [OF h1, of 1604300000000]
       get_fresh_row_returned [OF h1, of "expiry_ts freshRow * 1000"] h2 h3
  show ?thesis
    by (simp add: freshWorld_sel)
qed

text \<open>
  Claim C9. When the read query of \<open>get\<close> returns a row that has expired,
  \<open>deleteExpiredItems\<close> is on and the delete query that follows reports an error,
  \<open>get\<close> is rejected with that error after the two queries: it returns neither
  \<open>undefined\<close> nor the stale value.
\<close>

theorem get_delete_failure_rejects:
  assumes "client c (selectQuery c) (Placeholders [key]) (server w) = ((None, Some (r # rs)), s1)"
    and "deleteExpiredItems c"
    and "now \<ge> expiry_ts r * 1000"
    and "client c (deleteQuery c) (Placeholders [key]) s1 = ((Some e, dres), s2)"
  shows "get c key now w =
           (Inl e,
            \<lparr>issued = issued w @ [(selectQuery c, Placeholders [key]),
                                  (deleteQuery c, Placeholders [key])],
             server = s2\<rparr>)
         \<and> fst (get c key now w) \<noteq> Inr None
         \<and> fst (get c key now w) \<noteq> Inr (Some (row_value r))"
proof -
  let ?w1 = "\<lparr>issued = issued w @ [(selectQuery c, Placeholders [key])], server = s1\<rparr>"
  have sel: "promisifyQuery c (selectQuery c) (Placeholders [key]) w = (Inr (Some (r # rs)), ?w1)"
    using assms(1) by (rule promisifyQuery_resolves)
  have "client c (deleteQuery c) (Placeholders [key]) (server ?w1) = ((Some e, dres), s2)"
    using assms(4) by simp
  then have "delete c key ?w1 =
      (Inl e, \<lparr>issued = issued ?w1 @ [(deleteQuery c, Placeholders [key])], server = s2\<rparr>)"
    by (rule delete_rejects)
  with sel assms(2,3) show ?thesis
    by (simp add: get_def)
qed

theorem get_delete_failure_rejects_witness:
  "client scriptedCache (selectQuery scriptedCache) (Placeholders [''key-123''])
      (server (freshWorld [(None, Some [outdatedRow]), (Some ''ER_LOCK_DEADLOCK'', None)]))
     = ((None, Some [outdatedRow]), [(Some ''ER_LOCK_DEADLOCK'', None)])
   \<and> client scriptedCache (deleteQuery scriptedCache) (Placeholders [''key-123''])
      [(Some ''ER_LOCK_DEADLOCK'', None)]
     = ((Some ''ER_LOCK_DEADLOCK'', None), [])
   \<and> deleteExpiredItems scriptedCache
   \<and> (1604300000000 :: int) \<ge> expiry_ts outdatedRow * 1000
   \<and> get scriptedCache ''key-123'' 1604300000000
        (freshWorld [(None, Some [outdatedRow]), (Some ''ER_LOCK_DEADLOCK'', None)])
      = (Inl ''ER_LOCK_DEADLOCK'',
         \<lparr>issued = [(selectQuery scriptedCache, Placeholders [''key-123'']),
                     (deleteQuery scriptedCache, Placeholders [''key-123''])],
          server = []\<rparr>)"
proof -
  let ?w = "freshWorld [(None, Some [outdatedRow]), (Some ''ER_LOCK_DEADLOCK'', None)]"
  have h1: "client scriptedCache (selectQuery scriptedCache) (Placeholders [''key-123'']) (server ?w)
              = ((None, Some (outdatedRow # [])), [(Some ''ER_LOCK_DEADLOCK'', None)])"
    by (simp add: scriptedCache_query freshWorld_sel)
  have h2: "deleteExpiredItems scriptedCache"
    by (rule scriptedCache_deleteExpiredItems)
  have h3: "(1604300000000 :: int) \<ge> expiry_ts outdatedRow * 1000"
    by (simp add: outdatedRow_def)
  have h4: "client scriptedCache (deleteQuery scriptedCache) (Placeholders [''key-123''])
              [(Some ''ER_LOCK_DEADLOCK'', None)]
              = ((Some ''ER_LOCK_DEADLOCK'', None), [])"
    by (simp add: scriptedCache_query)
  from get_delete_failure_rejects [OF h1 h2 h3 h4] h1 h2 h3 h4 show ?thesis
    by (simp add: freshWorld_sel)
qed

section \<open>Deleting\<close>

text \<open>
  Claim C8. \<open>delete\<close> issues exactly one query, the delete query with the key as
  its parameter, and resolves to \<open>true\<close> whenever that query reports no error,
  whatever results the query has (the results tell whether a row was there, and
  \<open>delete\<close> does not look at them).
\<close>

theorem delete_one_query_true:
  assumes "client c (deleteQuery c) (Placeholders [key]) (server w) = ((derr, dres), s')"
  shows "snd (delete c key w) =
           \<lparr>issued = issued w @ [(deleteQuery c, Placeholders [key])], server = s'\<rparr>
         \<and> deleteCalls [(deleteQuery c, Placeholders [key])] = [(deleteQuery c, Placeholders [key])]
         \<and> (derr = None \<longrightarrow> fst (delete c key w) = Inr True)"
proof (cases derr)
  case None
  with assms show ?thesis
    by (simp add: delete_resolves deleteCalls_def matchesDelete_deleteQuery)
next
  case (Some e)
  with assms show ?thesis
    by (simp add: delete_rejects deleteCalls_def matchesDelete_deleteQuery)
qed

theorem delete_one_query_true_witness:
  "client (mockCache None None True) (deleteQuery (mockCache None None True))
      (Placeholders [''key-123'']) (server (freshWorld ()))
     = ((None, None), ())
   \<and> delete (mockCache None None True) ''key-123'' (freshWorld ())
      = (Inr True,
         \<lparr>issued = [(deleteQuery (mockCache None None True), Placeholders [''key-123''])],
          server = ()\<rparr>)"
proof -
  let ?c = "mockCache None None True"
  have h1: "client ?c (deleteQuery ?c) (Placeholders [''key-123'']) (server (freshWorld ()))
              = ((None, None), ())"
    by (simp add: mockCache_query)
  from delete_one_query_true [OF h1] h1 show ?thesis
    by (simp add: prod_eq_iff freshWorld_sel)
qed

section \<open>Errors of the connection\<close>

text \<open>
  Claim C5. Whenever the connection reports an error for a query that \<open>get\<close>,
  \<open>set\<close> or \<open>delete\<close> issues, the operation is rejected with that very error,
  and the failed query is the last one it issues (no retry). For \<open>get\<close> this holds
  for the read query and for the delete query that follows an expired row.
\<close>

theorem query_error_propagates:
  "(client c (selectQuery c) (Placeholders [key]) (server w) = ((Some e, res), s2) \<longrightarrow>
      get c key now w =
        (Inl e, \<lparr>issued = issued w @ [(selectQuery c, Placeholders [key])], server = s2\<rparr>))
   \<and> (client c (selectQuery c) (Placeholders [key]) (server w) = ((None, Some (r # rs)), s1)
        \<and> deleteExpiredItems c \<and> now \<ge> expiry_ts r * 1000
        \<and> client c (deleteQuery c) (Placeholders [key]) s1 = ((Some e, res), s2) \<longrightarrow>
      get c key now w =
        (Inl e, \<lparr>issued = issued w @ [(selectQuery c, Placeholders [key]),
                                        (deleteQuery c, Placeholders [key])], server = s2\<rparr>))
   \<and> (client c (insertQuery c)
         (SetObject key val
           (read_ttl (spread (defaultSetOptions c)
              (case options of None \<Rightarrow> \<lparr>ttl = None\<rparr> | Some obj \<Rightarrow> obj))))
         (server w) = ((Some e, res), s2) \<longrightarrow>
      set_item c key val options w =
        (Inl e,
         \<lparr>issued = issued w @
            [(insertQuery c, SetObject key val
               (read_ttl (spread (defaultSetOptions c)
                  (case options of None \<Rightarrow> \<lparr>ttl = None\<rparr> | Some obj \<Rightarrow> obj))))],
          server = s2\<rparr>))
   \<and> (client c (deleteQuery c) (Placeholders [key]) (server w) = ((Some e, res), s2) \<longrightarrow>
      delete c key w =
        (Inl e, \<lparr>issued = issued w @ [(deleteQuery c, Placeholders [key])], server = s2\<rparr>))"
proof (intro conjI impI)
  assume "client c (selectQuery c) (Placeholders [key]) (server w) = ((Some e, res), s2)"
  then show "get c key now w =
        (Inl e, \<lparr>issued = issued w @ [(selectQuery c, Placeholders [key])], server = s2\<rparr>)"
    by (simp add: get_def promisifyQuery_rejects)
next
  let ?w1 = "\<lparr>issued = issued w @ [(selectQuery c, Placeholders [key])], server = s1\<rparr>"
  assume a: "client c (selectQuery c) (Placeholders [key]) (server w) = ((None, Some (r # rs)), s1)
        \<and> deleteExpiredItems c \<and> now \<ge> expiry_ts r * 1000
        \<and> client c (deleteQuery c) (Placeholders [key]) s1 = ((Some e, res), s2)"
  then have sel: "promisifyQuery c (selectQuery c) (Placeholders [key]) w = (Inr (Some (r # rs)), ?w1)"
    by (simp add: promisifyQuery_resolves)
  from a have "client c (deleteQuery c) (Placeholders [key]) (server ?w1) = ((Some e, res), s2)"
    by simp
  then have "delete c key ?w1 =
      (Inl e, \<lparr>issued = issued ?w1 @ [(deleteQuery c, Placeholders [key])], server = s2\<rparr>)"
    by (rule delete_rejects)
  with sel a show "get c key now w =
        (Inl e, \<lparr>issued = issued w @ [(selectQuery c, Placeholders [key]),
                                        (deleteQuery c, Placeholders [key])], server = s2\<rparr>)"
    by (simp add: get_def)
next
  assume "client c (insertQuery c)
         (SetObject key val
           (read_ttl (spread (defaultSetOptions c)
              (case options of None \<Rightarrow> \<lparr>ttl = None\<rparr> | Some obj \<Rightarrow> obj))))
         (server w) = ((Some e, res), s2)"
  then show "set_item c key val options w =
        (Inl e,
         \<lparr>issued = issued w @
            [(insertQuery c, SetObject key val
               (read_ttl (spread (defaultSetOptions c)
                  (case options of None \<Rightarrow> \<lparr>ttl = None\<rparr> | Some obj \<Rightarrow> obj))))],
          server = s2\<rparr>)"
    by (simp add: set_item_def promisifyQuery_rejects)
next
  assume "client c (deleteQuery c) (Placeholders [key]) (server w) = ((Some e, res), s2)"
  then show "delete c key w =
        (Inl e, \<lparr>issued = issued w @ [(deleteQuery c, Placeholders [key])], server = s2\<rparr>)"
    by (rule delete_rejects)
qed

theorem query_error_propagates_witness:
  "get (mockCache (Some ''ER_CON_COUNT_ERROR'') None True) ''key-123'' 1604300000000 (freshWorld ())
     = (Inl ''ER_CON_COUNT_ERROR'',
        \<lparr>issued = [(selectQuery (mockCache (Some ''ER_CON_COUNT_ERROR'') None True),
                     Placeholders [''key-123''])],
         server = ()\<rparr>)
   \<and> get scriptedCache ''key-123'' 1604300000000
        (freshWorld [(None, Some [outdatedRow]), (Some ''ER_LOCK_DEADLOCK'', None)])
     = (Inl ''ER_LOCK_DEADLOCK'',
        \<lparr>issued = [(selectQuery scriptedCache, Placeholders [''key-123'']),
                    (deleteQuery scriptedCache, Placeholders [''key-123''])],
         server = []\<rparr>)
   \<and> set_item (mockCache (Some ''ER_CON_COUNT_ERROR'') None True) ''key-123'' ''{}'' None
        (freshWorld ())
     = (Inl ''ER_CON_COUNT_ERROR'',
        \<lparr>issued = [(insertQuery (mockCache (Some ''ER_CON_COUNT_ERROR'') None True),
                     SetObject ''key-123'' ''{}'' (Number 300))],
         server = ()\<rparr>)
   \<and> delete (mockCache (Some ''ER_CON_COUNT_ERROR'') None True) ''key-123'' (freshWorld ())
     = (Inl ''ER_CON_COUNT_ERROR'',
        \<lparr>issued = [(deleteQuery (mockCache (Some ''ER_CON_COUNT_ERROR'') None True),
                     Placeholders [''key-123''])],
         server = ()\<rparr>)"
proof -
  let ?c = "mockCache (Some ''ER_CON_COUNT_ERROR'') None True"
  let ?w = "freshWorld [(None, Some [outdatedRow]), (Some ''ER_LOCK_DEADLOCK'', None)]"
  have ttl300: "read_ttl (spread (defaultSetOptions ?c) \<lparr>ttl = None\<rparr>) = Number 300"
    by (simp add: mockCache_defaultSetOptions spread_def read_ttl_def)
  have mock: "client ?c q d (server (freshWorld ())) = ((Some ''ER_CON_COUNT_ERROR'', None), ())"
    for q d
    by (simp add: mockCache_query)
  have s1: "client scriptedCache (selectQuery scriptedCache) (Placeholders [''key-123'']) (server ?w)
              = ((None, Some (outdatedRow # [])), [(Some ''ER_LOCK_DEADLOCK'', None)])"
    by (simp add: scriptedCache_query freshWorld_sel)
  have s2: "client scriptedCache (deleteQuery scriptedCache) (Placeholders [''key-123''])
              [(Some ''ER_LOCK_DEADLOCK'', None)]
              = ((Some ''ER_LOCK_DEADLOCK'', None), [])"
    by (simp add: scriptedCache_query)
  have s3: "(1604300000000 :: int) \<ge> expiry_ts outdatedRow * 1000"
    by (simp add: outdatedRow_def)
  note on_mock = query_error_propagates
    [where c = ?c and key = "''key-123''" and w = "freshWorld ()" and now = 1604300000000
       and e = "''ER_CON_COUNT_ERROR''" and res = None and ?s2.0 = "()"
       and val = "''{}''" and options = None]
  note on_script = query_error_propagates
    [where c = scriptedCache and key = "''key-123''" and w = ?w and now = 1604300000000
       and e = "''ER_LOCK_DEADLOCK''" and res = None and ?s2.0 = "[]"
       and r = outdatedRow and rs = "[]" and ?s1.0 = "[(Some ''ER_LOCK_DEADLOCK'', None)]"]
  from on_mock on_script mock ttl300 s1 s2 s3 scriptedCache_deleteExpiredItems
  show ?thesis
    by (simp add: freshWorld_sel)
qed

section \<open>Writing\<close>

text \<open>
  Claim C3. The \<open>ttl\<close> of the object that \<open>set\<close> passes to the insert query is
  the \<open>ttl\<close> of \<open>options\<close> when \<open>options\<close> has one, and the default of the
  cache object otherwise, which is 300 for every object the constructor makes; an explicit
  \<open>ttl\<close> of 900 gives 900.
\<close>

theorem set_ttl_parameter:
  "issued (snd (set_item c key val options w)) =
     issued w @
       [(insertQuery c,
         SetObject key val
           (case options of
              None \<Rightarrow> read_ttl (defaultSetOptions c)
            | Some obj \<Rightarrow>
               (case ttl obj of
                  None \<Rightarrow> read_ttl (defaultSetOptions c)
                | Some v \<Rightarrow> v)))]
   \<and> (\<forall>cfg. constructor cfg = Inr c \<longrightarrow> read_ttl (defaultSetOptions c) = Number 300)
   \<and> issued (snd (set_item c key val (Some \<lparr>ttl = Some (Number 900)\<rparr>) w)) =
       issued w @ [(insertQuery c, SetObject key val (Number 900))]"
proof (intro conjI allI impI)
  show "issued (snd (set_item c key val options w)) =
     issued w @
       [(insertQuery c,
         SetObject key val
           (case options of
              None \<Rightarrow> read_ttl (defaultSetOptions c)
            | Some obj \<Rightarrow>
               (case ttl obj of
                  None \<Rightarrow> read_ttl (defaultSetOptions c)
                | Some v \<Rightarrow> v)))]"
    by (simp add: set_item_issued spread_def read_ttl_def split: option.splits)
  show "read_ttl (defaultSetOptions c) = Number 300" if "constructor cfg = Inr c" for cfg
    using constructor_default_ttl [OF that] by (simp add: read_ttl_def)
  show "issued (snd (set_item c key val (Some \<lparr>ttl = Some (Number 900)\<rparr>) w)) =
       issued w @ [(insertQuery c, SetObject key val (Number 900))]"
    by (simp add: set_item_issued spread_def read_ttl_def)
qed

theorem set_ttl_parameter_witness:
  "constructor (Some (defaultConfig (MockConnection None None))) = Inr (mockCache None None True)
   \<and> issued (snd (set_item (mockCache None None True) ''key-123'' ''{}'' None (freshWorld ()))) =
       [(insertQuery (mockCache None None True), SetObject ''key-123'' ''{}'' (Number 300))]
   \<and> issued (snd (set_item (mockCache None None True) ''key-123'' ''{}''
         (Some \<lparr>ttl = Some (Number 900)\<rparr>) (freshWorld ()))) =
       [(insertQuery (mockCache None None True), SetObject ''key-123'' ''{}'' (Number 900))]"
proof -
  let ?c = "mockCache None None True"
  have made: "constructor (Some (defaultConfig (MockConnection None None))) = Inr ?c"
    by (simp add: constructor_defaultConfig mockCache_def)
  note plain = set_ttl_parameter
    [where c = ?c and key = "''key-123''" and val = "''{}''" and options = None
       and w = "freshWorld ()"]
  from plain made have "read_ttl (defaultSetOptions ?c) = Number 300"
    by blast
  with plain made show ?thesis
    by (simp add: freshWorld_sel)
qed

text \<open>
  Claim C10. For a cache object made by the constructor, \<open>set\<close> with the options
  \<open>{ ttl: undefined }\<close> passes \<open>ttl: undefined\<close> to the insert query, not the
  default 300: whenever \<open>options\<close> has a property \<open>ttl\<close>, its value is passed on,
  and the default 300 is passed when the property is missing or no options are given.
\<close>

theorem set_ttl_undefined_overrides:
  assumes "constructor cfg = Inr c"
  shows "issued (snd (set_item c key val (Some \<lparr>ttl = Some Undefined\<rparr>) w)) =
           issued w @ [(insertQuery c, SetObject key val Undefined)]
         \<and> issued (snd (set_item c key val (Some \<lparr>ttl = Some Undefined\<rparr>) w)) \<noteq>
           issued w @ [(insertQuery c, SetObject key val (Number 300))]
         \<and> (\<forall>obj v. ttl obj = Some v \<longrightarrow>
               issued (snd (set_item c key val (Some obj) w)) =
                 issued w @ [(insertQuery c, SetObject key val v)])
         \<and> (\<forall>obj. ttl obj = None \<longrightarrow>
               issued (snd (set_item c key val (Some obj) w)) =
                 issued w @ [(insertQuery c, SetObject key val (Number 300))])
         \<and> issued (snd (set_item c key val None w)) =
             issued w @ [(insertQuery c, SetObject key val (Number 300))]"
proof -
  have d: "defaultSetOptions c = \<lparr>ttl = Some (Number 300)\<rparr>"
    using assms by (rule constructor_default_ttl)
  show ?thesis
    by (simp add: set_item_issued d spread_def read_ttl_def)
qed

theorem set_ttl_undefined_overrides_witness:
  "constructor (Some (defaultConfig (MockConnection None None))) = Inr (mockCache None None True)
   \<and> ttl \<lparr>ttl = Some Undefined\<rparr> = Some Undefined
   \<and> ttl \<lparr>ttl = None\<rparr> = None
   \<and> issued (snd (set_item (mockCache None None True) ''key-123'' ''{}''
         (Some \<lparr>ttl = Some Undefined\<rparr>) (freshWorld ()))) =
       [(insertQuery (mockCache None None True), SetObject ''key-123'' ''{}'' Undefined)]
   \<and> issued (snd (set_item (mockCache None None True) ''key-123'' ''{}''
         (Some \<lparr>ttl = None\<rparr>) (freshWorld ()))) =
       [(insertQuery (mockCache None None True), SetObject ''key-123'' ''{}'' (Number 300))]"
proof -
  let ?c = "mockCache None None True"
  have made: "constructor (Some (defaultConfig (MockConnection None None))) = Inr ?c"
    by (simp add: constructor_defaultConfig mockCache_def)
  note run = set_ttl_undefined_overrides
    [OF made, where key = "''key-123''" and val = "''{}''" and w = "freshWorld ()"]
  from run made show ?thesis
    by (simp add: freshWorld_sel)
qed

end
